theory Spec2Isabelle
  imports Main
begin

section \<open>Python strings and printing\<close>


definition ascii_lower_char :: "char \<Rightarrow> char" where
  "ascii_lower_char c =
     (let n = (of_char c :: nat) in if 65 \<le> n \<and> n \<le> 90 then char_of (n + 32) else c)"

definition ascii_lower :: "string \<Rightarrow> string" where
  "ascii_lower s = map ascii_lower_char s"

text \<open>\<^verbatim>\<open>hay.startswith(needle)\<close>, used to express the substring test.\<close>

fun starts_with :: "string \<Rightarrow> string \<Rightarrow> bool" where
  "starts_with hay [] = True"
| "starts_with [] (n # ns) = False"
| "starts_with (h # hs) (n # ns) = (h = n \<and> starts_with hs ns)"

text \<open>\<^verbatim>\<open>needle in hay\<close> on strings: the substring test, tried at every position.\<close>

fun str_in :: "string \<Rightarrow> string \<Rightarrow> bool" where
  "str_in needle [] = (needle = [])"
| "str_in needle (h # hs) = (starts_with (h # hs) needle \<or> str_in needle hs)"

text \<open>\<^verbatim>\<open>sep.join(xs)\<close>.\<close>

fun join :: "string \<Rightarrow> string list \<Rightarrow> string" where
  "join sep [] = []"
| "join sep [x] = x"
| "join sep (x # y # ys) = x @ sep @ join sep (y # ys)"

section \<open>Data model\<close>

text \<open>
  A job posting is a JSON object with the string fields \<^verbatim>\<open>title\<close>, \<^verbatim>\<open>company\<close> and
  \<^verbatim>\<open>description\<close>.
\<close>

record job =
  title :: string
  company :: string
  description :: string

text \<open>
  The object \<^verbatim>\<open>self\<close> of class \<^verbatim>\<open>CareerAgent\<close>, and the world a method runs in:
  the agent object and the lines written by \<^verbatim>\<open>print\<close> so far.
\<close>

record CareerAgent =
  granite_api_key :: string
  mock_db_path :: string
  mock_jobs :: "job list"

record world =
  self :: CareerAgent
  stdout :: "string list"

definition py_print :: "string \<Rightarrow> world \<Rightarrow> world" where
  "py_print line w = w\<lparr>stdout := stdout w @ [line]\<rparr>"

text \<open>The dictionary returned by \<^verbatim>\<open>_analyze_skills_tool\<close>.\<close>

record analysis =
  match_score :: int
  skill_gaps :: "string list"

section \<open>The skill analyzer\<close>

definition required_skills :: "string list" where
  "required_skills =
     [''Python'', ''Data Analysis'', ''SQL'', ''Machine Learning'', ''AI'', ''Algorithms'']"

text \<open>
  \<^verbatim>\<open>sum(1 for skill in user_skills if skill in required_skills)\<close>, for a list of
  required skills \<open>req\<close>.
\<close>

definition match_count_of :: "string list \<Rightarrow> string list \<Rightarrow> int" where
  "match_count_of req user_skills =
     sum_list (map (\<lambda>skill. 1) (filter (\<lambda>skill. skill \<in> set req) user_skills))"

text \<open>
  \<^verbatim>\<open>int((match_count / len(required_skills)) * 100) if required_skills else 0\<close>.

  The source divides in binary64 floating point and truncates. The quotient
  \<open>100 * match_count / 6\<close> is an integer exactly when \<open>match_count\<close> is a multiple of 3,
  and then \<open>match_count / 6\<close> is a multiple of one half, which binary64 represents and
  multiplies by 100 without rounding. Otherwise the exact value lies at distance at least
  one third from every integer, while the two roundings move it by a relative error of
  about \<open>2 ^ -52\<close>. So for every count a list in memory can have, the truncated float
  equals the integer quotient written here.
\<close>

definition match_score_of :: "string list \<Rightarrow> int \<Rightarrow> int" where
  "match_score_of req match_count =
     (if req \<noteq> [] then (match_count * 100) div int (length req) else 0)"

text \<open>
  The body of \<^verbatim>\<open>_analyze_skills_tool\<close> after its \<^verbatim>\<open>print\<close>, with the local list
  \<^verbatim>\<open>required_skills\<close> as a parameter.
\<close>

definition analyze_with :: "string list \<Rightarrow> string list \<Rightarrow> analysis" where
  "analyze_with req user_skills =
     (let match_count = match_count_of req user_skills;
          match_score = match_score_of req match_count;
          skill_gaps = filter (\<lambda>skill. skill \<notin> set user_skills) req
      in \<lparr>match_score = match_score, skill_gaps = skill_gaps\<rparr>)"

text \<open>\<^verbatim>\<open>CareerAgent._analyze_skills_tool(self, user_skills, job_description)\<close>.\<close>

definition analyze_skills_tool :: "string list \<Rightarrow> string \<Rightarrow> world \<Rightarrow> analysis \<times> world" where
  "analyze_skills_tool user_skills job_description w =
     (let w1 = py_print
            ''[Tool: Skill Analysis] Analyzing user skills against job requirements...'' w
      in (analyze_with required_skills user_skills, w1))"

section \<open>The job catalog\<close>

text \<open>
  What \<^verbatim>\<open>_load_mock_job_db\<close> can meet at a path: no file, a file that cannot be
  opened, a file that is not JSON, or a JSON array of job postings. The exceptions are the
  ones \<^verbatim>\<open>open\<close> and \<^verbatim>\<open>json.load\<close> raise; the method catches neither.
\<close>

datatype source = NotFound | Unreadable | Malformed | Document "job list"

datatype exn = OSError | JSONDecodeError

text \<open>
  \<^verbatim>\<open>CareerAgent._load_mock_job_db(self)\<close>: the value assigned to
  \<^verbatim>\<open>self.mock_jobs\<close> and the lines printed, or the exception that escapes.
\<close>

definition load_mock_job_db ::
    "string \<Rightarrow> (string \<Rightarrow> source) \<Rightarrow> string list \<Rightarrow> exn + (job list \<times> string list)" where
  "load_mock_job_db path fs out =
     (case fs path of
        NotFound \<Rightarrow>
          Inr ([], out @ [''Warning: Mock job database not found at '' @ path
                           @ ''. No jobs loaded.''])
      | Unreadable \<Rightarrow> Inl OSError
      | Malformed \<Rightarrow> Inl JSONDecodeError
      | Document jobs \<Rightarrow> Inr (jobs, out))"

text \<open>\<^verbatim>\<open>CareerAgent.__init__(self, granite_api_key, mock_db_path)\<close>.\<close>

definition CareerAgent_init ::
    "string \<Rightarrow> string \<Rightarrow> (string \<Rightarrow> source) \<Rightarrow> string list \<Rightarrow> exn + world" where
  "CareerAgent_init key path fs out =
     (case load_mock_job_db path fs out of
        Inl e \<Rightarrow> Inl e
      | Inr (jobs, out1) \<Rightarrow>
          Inr (py_print ''AI Career Agent Initialized.''
                 \<lparr>self = \<lparr>granite_api_key = key, mock_db_path = path, mock_jobs = jobs\<rparr>,
                  stdout = out1\<rparr>))"

text \<open>A file system without any file, and one with a single file.\<close>

definition no_files :: "string \<Rightarrow> source" where
  "no_files path = NotFound"

definition one_file :: "string \<Rightarrow> source \<Rightarrow> string \<Rightarrow> source" where
  "one_file name content path = (if path = name then content else NotFound)"

section \<open>The job finder\<close>

text \<open>
  The loop of \<^verbatim>\<open>_find_jobs_tool\<close> over \<^verbatim>\<open>self.mock_jobs\<close>, with the list
  \<^verbatim>\<open>found_jobs\<close> it appends to.
\<close>

fun find_jobs_loop ::
    "(string \<Rightarrow> string) \<Rightarrow> string list \<Rightarrow> job list \<Rightarrow> job list \<Rightarrow> job list" where
  "find_jobs_loop str_lower skills [] found_jobs = found_jobs"
| "find_jobs_loop str_lower skills (job # jobs) found_jobs =
     find_jobs_loop str_lower skills jobs
       (if list_ex (\<lambda>skill. str_in (str_lower skill) (str_lower (description job))) skills
        then found_jobs @ [job] else found_jobs)"

text \<open>\<^verbatim>\<open>CareerAgent._find_jobs_tool(self, skills)\<close>.\<close>

definition find_jobs_tool ::
    "(string \<Rightarrow> string) \<Rightarrow> string list \<Rightarrow> world \<Rightarrow> job list \<times> world" where
  "find_jobs_tool str_lower skills w =
     (let w1 = py_print (CHR 0x0A # ''[Tool: Job Search] Searching for jobs with skills: ''
                          @ join '', '' skills) w
      in (find_jobs_loop str_lower skills (mock_jobs (self w1)) [], w1))"

section \<open>The learning recommender\<close>

definition recommendations :: "string \<rightharpoonup> string" where
  "recommendations = map_of
     [(''Python'', ''Coursera: Python for Everybody''),
      (''Data Analysis'', ''DataCamp: Data Analyst with Python''),
      (''SQL'', ''Udemy: The Complete SQL Bootcamp''),
      (''Machine Learning'', ''Coursera: Machine Learning by Andrew Ng''),
      (''AI'', ''IBM SkillsBuild: Getting Started with AI'')]"

text \<open>\<^verbatim>\<open>recommendations.get(skill, f"Online resources for {skill}")\<close>.\<close>

definition recommendation_for :: "string \<Rightarrow> string" where
  "recommendation_for skill =
     (case recommendations skill of
        Some resource \<Rightarrow> resource
      | None \<Rightarrow> ''Online resources for '' @ skill)"

text \<open>\<^verbatim>\<open>CareerAgent._recommend_learning_tool(self, skill_gaps)\<close>.\<close>

definition recommend_learning_tool :: "string list \<Rightarrow> world \<Rightarrow> string list \<times> world" where
  "recommend_learning_tool gaps w =
     (let w1 = py_print (''[Tool: Learning Resources] Recommending courses for skill gaps: ''
                          @ join '', '' gaps) w
      in (map recommendation_for gaps, w1))"

section \<open>The orchestrator\<close>

text \<open>
  The argument \<^verbatim>\<open>user_profile\<close>: a dictionary whose keys \<^verbatim>\<open>skills\<close> and
  \<^verbatim>\<open>goal\<close> may be absent.
\<close>

record user_profile =
  skills :: "string list option"
  goal :: "string option"

text \<open>
  An entry of \<^verbatim>\<open>matches\<close>: the keys \<^verbatim>\<open>skill_gaps\<close> and \<^verbatim>\<open>learning_plan\<close>
  are set only when the analysis found gaps.
\<close>

record job_match =
  jm_title :: string
  jm_company :: string
  jm_match_score :: int
  jm_skill_gaps :: "string list option"
  jm_learning_plan :: "string list option"

text \<open>
  A report dictionary: every report has \<^verbatim>\<open>status\<close>; the keys \<^verbatim>\<open>report\<close> and
  \<^verbatim>\<open>matches\<close> are present in some reports and absent in others.
\<close>

record report =
  status :: string
  report_text :: "string option"
  matches :: "job_match list option"

text \<open>
  The body of the loop of \<^verbatim>\<open>run_agent\<close> for one job: the entry \<^verbatim>\<open>job_match\<close>
  it builds, with the analysis and, when there are gaps, the learning plan.
\<close>

definition analyze_job :: "string list \<Rightarrow> job \<Rightarrow> world \<Rightarrow> job_match \<times> world" where
  "analyze_job user_skills job w =
     (let (a, w1) = analyze_skills_tool user_skills (description job) w;
          m = \<lparr>jm_title = title job, jm_company = company job,
               jm_match_score = match_score a,
               jm_skill_gaps = None, jm_learning_plan = None\<rparr>
      in if skill_gaps a \<noteq> [] then
           (let (learning_plan, w2) = recommend_learning_tool (skill_gaps a) w1
            in (m\<lparr>jm_skill_gaps := Some (skill_gaps a),
                   jm_learning_plan := Some learning_plan\<rparr>, w2))
         else (m, w1))"

text \<open>
  The loop of \<^verbatim>\<open>run_agent\<close> over \<^verbatim>\<open>job_listings\<close>, with the list
  \<^verbatim>\<open>final_report['matches']\<close> it appends to.
\<close>

fun analyze_loop ::
    "string list \<Rightarrow> job list \<Rightarrow> job_match list \<Rightarrow> world \<Rightarrow> job_match list \<times> world" where
  "analyze_loop user_skills [] ms w = (ms, w)"
| "analyze_loop user_skills (job # jobs) ms w =
     (let (m, w1) = analyze_job user_skills job w
      in analyze_loop user_skills jobs (ms @ [m]) w1)"

text \<open>\<^verbatim>\<open>CareerAgent.run_agent(self, user_profile)\<close>.\<close>

definition run_agent ::
    "(string \<Rightarrow> string) \<Rightarrow> user_profile \<Rightarrow> world \<Rightarrow> report \<times> world" where
  "run_agent str_lower p w =
     (let w1 = py_print (CHR 0x0A # ''--- Agent Workflow Initiated ---'') w;
          user_skills = (case skills p of None \<Rightarrow> [] | Some s \<Rightarrow> s);
          (job_listings, w2) = find_jobs_tool str_lower user_skills w1
      in if job_listings = [] then
           (\<lparr>status = ''No jobs found.'',
             report_text =
               Some ''No suitable job listings were found with your current skills.'',
             matches = None\<rparr>, w2)
         else
           (let (ms, w3) = analyze_loop user_skills job_listings [] w2;
                w4 = py_print (CHR 0x0A # ''--- Agent Workflow Complete ---'') w3
            in (\<lparr>status = ''Success'', report_text = None, matches = Some ms\<rparr>, w4)))"

section \<open>The \<^verbatim>\<open>find_jobs\<close> endpoint\<close>

text \<open>
  The handler of \<^verbatim>\<open>POST /api/find_jobs\<close> in \<^verbatim>\<open>AI_Career_Agent.py\<close>: the entry
  \<^verbatim>\<open>skills\<close> of the request's JSON body (absent or a list of strings) gives the JSON
  response and its HTTP status. The global \<^verbatim>\<open>agent\<close> is the agent of the world. The
  handler's \<^verbatim>\<open>except\<close> branch answers an exception of the two calls; on lists of
  strings and a catalog of job records neither call raises.
\<close>

definition find_jobs ::
    "(string \<Rightarrow> string) \<Rightarrow> string list option \<Rightarrow> world \<Rightarrow> (report \<times> nat) \<times> world" where
  "find_jobs str_lower data_skills w =
     (let skills = (case data_skills of None \<Rightarrow> [] | Some s \<Rightarrow> s)
      in if skills = [] then
           ((\<lparr>status = ''Error'', report_text = Some ''Please provide a list of skills.'',
              matches = None\<rparr>, 400), w)
         else
           (let (job_listings, w1) = find_jobs_tool str_lower skills w
            in if job_listings = [] then
                 ((\<lparr>status = ''Success'', report_text = Some ''No suitable jobs found.'',
                    matches = Some []\<rparr>, 200), w1)
               else
                 (let (r, w2) = run_agent str_lower \<lparr>skills = Some skills, goal = None\<rparr> w1
                  in ((r, 200), w2))))"

section \<open>The catalog of the main block\<close>

definition mock_jobs_data :: "job list" where
  "mock_jobs_data =
     [\<lparr>title = ''Data Scientist'', company = ''TechCorp'',
       description = ''Looking for a Data Scientist with strong Python, SQL, and Machine Learning skills.''\<rparr>,
      \<lparr>title = ''Web Developer'', company = ''Code Inc.'',
       description = ''Experienced Web Developer needed with JavaScript, HTML, and CSS skills.''\<rparr>,
      \<lparr>title = ''AI Engineer'', company = ''AI Innovators'',
       description = ''Seeking an AI Engineer with expertise in AI, Machine Learning, and algorithms.''\<rparr>,
      \<lparr>title = ''Business Analyst'', company = ''Global Solutions'',
       description = ''Need a Business Analyst with strong communication and analysis skills.''\<rparr>]"

text \<open>The world after the main block has built its agent from that catalog.\<close>

definition main_world :: world where
  "main_world =
     \<lparr>self = \<lparr>granite_api_key = ''YOUR_GRANITE_API_KEY'', mock_db_path = ''mock_job_db.json'',
               mock_jobs = mock_jobs_data\<rparr>,
      stdout = [''AI Career Agent Initialized.'']\<rparr>"

section \<open>Comparing without regard to case\<close>



section \<open>A catalog in Greek capitals\<close>






section \<open>Properties of the skill analyzer\<close>

lemma match_count_of_length:
  "match_count_of req us = int (length (filter (\<lambda>skill. skill \<in> set req) us))"
  unfolding match_count_of_def by (induction us) simp_all

lemma length_filter_count_list:
  "finite A \<Longrightarrow> length (filter (\<lambda>skill. skill \<in> A) us) = (\<Sum>t\<in>A. count_list us t)"
proof (induction us)
  case Nil
  then show ?case by simp
next
  case (Cons u us)
  have "(\<Sum>t\<in>A. count_list (u # us) t)
          = (\<Sum>t\<in>A. count_list us t + (if t = u then 1 else 0))"
    by (rule sum.cong) auto
  also have "\<dots> = (\<Sum>t\<in>A. count_list us t) + (\<Sum>t\<in>A. if t = u then 1 else 0)"
    by (simp add: sum.distrib)
  also have "(\<Sum>t\<in>A. if t = u then 1 else 0) = (if u \<in> A then 1 else (0::nat))"
    using Cons.prems by simp
  finally show ?case using Cons by simp
qed

lemma distinct_filter_card:
  assumes "distinct us"
  shows "length (filter (\<lambda>skill. skill \<in> set req) us) = card (set us \<inter> set req)"
proof -
  have "distinct (filter (\<lambda>skill. skill \<in> set req) us)"
    using assms by simp
  then have "length (filter (\<lambda>skill. skill \<in> set req) us)
               = card (set (filter (\<lambda>skill. skill \<in> set req) us))"
    by (simp only: distinct_card)
  moreover have "set (filter (\<lambda>skill. skill \<in> set req) us) = set us \<inter> set req"
    by auto
  ultimately show ?thesis by simp
qed

lemma length_required_skills: "length required_skills = 6"
  by (simp add: required_skills_def)

lemma required_skills_nonempty: "required_skills \<noteq> []"
  by (simp add: required_skills_def)

lemma distinct_required_skills: "distinct required_skills"
  by (simp add: required_skills_def)

lemma card_required_skills: "card (set required_skills) = 6"
  using distinct_card [OF distinct_required_skills] by (simp add: length_required_skills)

lemma match_count_insert:
  "t \<in> set req \<Longrightarrow> match_count_of req (xs @ t # ys) = match_count_of req (xs @ ys) + 1"
  by (simp add: match_count_of_length)

lemma match_count_nonneg: "0 \<le> match_count_of req us"
  by (simp add: match_count_of_length)

lemma match_score_fst:
  "match_score (fst (analyze_skills_tool us d w))
     = (match_count_of required_skills us * 100) div 6"
  by (simp add: analyze_skills_tool_def analyze_with_def match_score_of_def Let_def
      length_required_skills required_skills_nonempty)

lemma skill_gaps_fst:
  "skill_gaps (fst (analyze_skills_tool us d w))
     = filter (\<lambda>skill. skill \<notin> set us) required_skills"
  by (simp add: analyze_skills_tool_def analyze_with_def Let_def)

lemma match_score_empty_taxonomy: "match_score (analyze_with [] us) = 0"
  by (simp add: analyze_with_def match_score_of_def Let_def)

text \<open>
  Claim C1. The match score is meant to be an integer between 0 and 100. The analyzer
  counts every entry of the user's list that is a required skill, so a list that repeats
  a required skill seven times is counted 7 out of 6: on seven entries \<^verbatim>\<open>Python\<close> the
  analyzer returns the score 116.
\<close>

theorem match_score_exceeds_100:
  "match_score (fst (analyze_skills_tool
      [''Python'', ''Python'', ''Python'', ''Python'', ''Python'', ''Python'', ''Python'']
      ''Looking for a Data Scientist with strong Python, SQL, and Machine Learning skills.''
      main_world)) = 116"
  by (simp add: match_score_fst match_count_of_length required_skills_def)

text \<open>
  Claim C5. For every user skill list \<open>S\<close> and description, the skill gaps are exactly the
  required skills that are not (case-sensitive, exact) members of \<open>S\<close>, in the order of the
  required skills; no gap is a member of \<open>S\<close>; and the gaps together with the required
  skills that \<open>S\<close> has are all the required skills, the two parts being disjoint. The gaps
  have no duplicates.
\<close>

theorem skill_gaps_partition:
  "skill_gaps (fst (analyze_skills_tool S desc w)) = filter (\<lambda>t. t \<notin> set S) required_skills
   \<and> set (skill_gaps (fst (analyze_skills_tool S desc w))) \<inter> set S = {}
   \<and> set (skill_gaps (fst (analyze_skills_tool S desc w))) \<union> (set S \<inter> set required_skills)
       = set required_skills
   \<and> set (skill_gaps (fst (analyze_skills_tool S desc w))) \<inter> (set S \<inter> set required_skills)
       = {}
   \<and> distinct (skill_gaps (fst (analyze_skills_tool S desc w)))"
  unfolding skill_gaps_fst using distinct_required_skills by auto

theorem skill_gaps_partition_witness:
  "skill_gaps (fst (analyze_skills_tool [''Python'', ''SQL'', ''Machine Learning''] []
      main_world))
     = [''Data Analysis'', ''AI'', ''Algorithms'']"
  using skill_gaps_partition [of "[''Python'', ''SQL'', ''Machine Learning'']" "[]" main_world]
  by (simp add: required_skills_def)

text \<open>
  Claim C6. Adding a required skill to the user's list, at any position, never decreases
  the match score.
\<close>

theorem match_score_monotone:
  assumes "t \<in> set required_skills"
  shows "match_score (fst (analyze_skills_tool (xs @ ys) desc w))
           \<le> match_score (fst (analyze_skills_tool (xs @ t # ys) desc w))"
proof -
  have "match_count_of required_skills (xs @ ys) * 100
          \<le> match_count_of required_skills (xs @ t # ys) * 100"
    using assms by (simp add: match_count_insert)
  then show ?thesis
    unfolding match_score_fst by (rule zdiv_mono1) simp
qed

theorem match_score_monotone_witness:
  "''SQL'' \<in> set required_skills
   \<and> match_score (fst (analyze_skills_tool ([''Python''] @ [''AI'']) [] main_world))
       \<le> match_score (fst (analyze_skills_tool ([''Python''] @ ''SQL'' # [''AI'']) []
             main_world))"
proof -
  have h: "''SQL'' \<in> set required_skills"
    by (simp add: required_skills_def)
  from h match_score_monotone [OF h, of "[''Python'']" "[''AI'']" "[]" main_world]
  show ?thesis by (rule conjI)
qed

text \<open>
  Claim C10. The analyzer counts the user's entries with multiplicity: the match count is
  the sum, over the required skills, of the number of times each occurs in the user's
  list. For a list \<open>S\<close> without duplicates the match score is the number of required skills
  in \<open>S\<close> times 100 divided by 6, rounded down, and lies between 0 and 100. One more
  entry that is a required skill, duplicate or not, strictly increases the score.
\<close>

theorem analyzer_counts_with_multiplicity:
  "match_count_of required_skills us = (\<Sum>t\<in>set required_skills. int (count_list us t))
   \<and> (distinct S \<longrightarrow>
        match_score (fst (analyze_skills_tool S desc w))
          = (int (card (set S \<inter> set required_skills)) * 100) div 6
        \<and> 0 \<le> match_score (fst (analyze_skills_tool S desc w))
        \<and> match_score (fst (analyze_skills_tool S desc w)) \<le> 100)
   \<and> (t \<in> set required_skills \<longrightarrow>
        match_score (fst (analyze_skills_tool (xs @ ys) desc w))
          < match_score (fst (analyze_skills_tool (xs @ t # ys) desc w)))"
proof (intro conjI impI)
  show "match_count_of required_skills us
          = (\<Sum>t\<in>set required_skills. int (count_list us t))"
    by (simp add: match_count_of_length length_filter_count_list)
next
  assume d: "distinct S"
  have c: "match_count_of required_skills S = int (card (set S \<inter> set required_skills))"
    by (simp add: match_count_of_length distinct_filter_card [OF d])
  show "match_score (fst (analyze_skills_tool S desc w))
          = (int (card (set S \<inter> set required_skills)) * 100) div 6"
    by (simp add: match_score_fst c)
  have "card (set S \<inter> set required_skills) \<le> card (set required_skills)"
    by (rule card_mono) auto
  then have le: "match_count_of required_skills S \<le> 6"
    by (simp add: c card_required_skills)
  show "0 \<le> match_score (fst (analyze_skills_tool S desc w))"
    unfolding match_score_fst using match_count_nonneg [of required_skills S] by simp
  show "match_score (fst (analyze_skills_tool S desc w)) \<le> 100"
    unfolding match_score_fst using le by simp
next
  assume t: "t \<in> set required_skills"
  show "match_score (fst (analyze_skills_tool (xs @ ys) desc w))
          < match_score (fst (analyze_skills_tool (xs @ t # ys) desc w))"
    unfolding match_score_fst match_count_insert [OF t] by simp
qed

theorem analyzer_counts_with_multiplicity_witness:
  "match_count_of required_skills [''Python'', ''Python'', ''Rust''] = 2
   \<and> distinct [''Python'', ''SQL'', ''Rust'']
   \<and> match_score (fst (analyze_skills_tool [''Python'', ''SQL'', ''Rust''] [] main_world)) = 33
   \<and> ''Python'' \<in> set required_skills
   \<and> match_score (fst (analyze_skills_tool ([''Python''] @ []) [] main_world))
       < match_score (fst (analyze_skills_tool ([''Python''] @ ''Python'' # []) []
             main_world))"
proof -
  have d: "distinct [''Python'', ''SQL'', ''Rust'']"
    by simp
  have t: "''Python'' \<in> set required_skills"
    by (simp add: required_skills_def)
  have c: "card (set [''Python'', ''SQL'', ''Rust''] \<inter> set required_skills) = 2"
    by (simp add: required_skills_def)
  have s: "(\<Sum>t\<in>set required_skills. int (count_list [''Python'', ''Python'', ''Rust''] t)) = 2"
    by (simp add: required_skills_def)
  from analyzer_counts_with_multiplicity
         [of "[''Python'', ''Python'', ''Rust'']" "[''Python'', ''SQL'', ''Rust'']" "[]"
             main_world "''Python''" "[''Python'']" "[]"]
  show ?thesis using d t c s by simp
qed

section \<open>Properties of the job finder\<close>

lemma starts_with_iff: "starts_with hay needle \<longleftrightarrow> (\<exists>q. hay = needle @ q)"
  by (induction hay needle rule: starts_with.induct) auto

lemma str_in_iff: "str_in needle hay \<longleftrightarrow> (\<exists>p q. hay = p @ needle @ q)"
proof (induction hay)
  case Nil
  then show ?case by auto
next
  case (Cons h hs)
  have "(\<exists>p q. h # hs = p @ needle @ q)
          \<longleftrightarrow> (\<exists>q. h # hs = needle @ q) \<or> (\<exists>p q. hs = p @ needle @ q)"
  proof
    assume "\<exists>p q. h # hs = p @ needle @ q"
    then obtain p q where e: "h # hs = p @ needle @ q"
      by blast
    show "(\<exists>q. h # hs = needle @ q) \<or> (\<exists>p q. hs = p @ needle @ q)"
    proof (cases p)
      case Nil
      with e show ?thesis by auto
    next
      case (Cons a p')
      with e have "hs = p' @ needle @ q"
        by simp
      then show ?thesis by blast
    qed
  next
    assume "(\<exists>q. h # hs = needle @ q) \<or> (\<exists>p q. hs = p @ needle @ q)"
    then show "\<exists>p q. h # hs = p @ needle @ q"
    proof
      assume "\<exists>q. h # hs = needle @ q"
      then obtain q where "h # hs = [] @ needle @ q"
        by auto
      then show ?thesis by blast
    next
      assume "\<exists>p q. hs = p @ needle @ q"
      then obtain p q where "hs = p @ needle @ q"
        by blast
      then have "h # hs = (h # p) @ needle @ q"
        by simp
      then show ?thesis by blast
    qed
  qed
  with Cons show ?case by (simp add: starts_with_iff)
qed

lemma str_in_suffix: "str_in needle (p @ needle)"
proof -
  have "p @ needle = p @ needle @ []"
    by simp
  then show ?thesis
    unfolding str_in_iff by blast
qed

lemma find_jobs_loop_filter:
  "find_jobs_loop L ks jobs found
     = found @ filter (\<lambda>job. list_ex (\<lambda>skill. str_in (L skill) (L (description job))) ks)
                 jobs"
  by (induction jobs arbitrary: found) simp_all

lemma find_jobs_tool_fst:
  "fst (find_jobs_tool L ks w)
     = filter (\<lambda>job. \<exists>skill\<in>set ks. \<exists>p q. L (description job) = p @ L skill @ q)
         (mock_jobs (self w))"
  by (simp add: find_jobs_tool_def Let_def py_print_def find_jobs_loop_filter list_ex_iff
      str_in_iff)

lemma find_jobs_tool_snd:
  "snd (find_jobs_tool L ks w)
     = py_print (CHR 0x0A # ''[Tool: Job Search] Searching for jobs with skills: ''
                  @ join '', '' ks) w"
  by (simp add: find_jobs_tool_def Let_def)













section \<open>Properties of the learning recommender\<close>

lemma recommend_fst: "fst (recommend_learning_tool gaps w) = map recommendation_for gaps"
  by (simp add: recommend_learning_tool_def Let_def)

lemma recommend_self: "self (snd (recommend_learning_tool gaps w)) = self w"
  by (simp add: recommend_learning_tool_def Let_def py_print_def)

lemma recommendation_for_Some:
  "recommendations g = Some resource \<Longrightarrow> recommendation_for g = resource"
  by (simp add: recommendation_for_def)

lemma recommendation_for_None:
  "recommendations g = None \<Longrightarrow> recommendation_for g = ''Online resources for '' @ g"
  by (simp only: recommendation_for_def option.case)

text \<open>
  Claim C7. For every list of gap skills the recommender returns one recommendation per
  gap, in the order of the gaps: the entry at position \<open>i\<close> is the resource the table
  maps the \<open>i\<close>-th gap to, or, for a gap the table does not have, the text
  \<^verbatim>\<open>Online resources for\<close> followed by the gap's name, which therefore contains that
  name. The call always returns and leaves the agent as it was.
\<close>

theorem recommend_learning_tool_entries:
  "length (fst (recommend_learning_tool gaps w)) = length gaps
   \<and> fst (recommend_learning_tool gaps w) = map recommendation_for gaps
   \<and> (\<forall>i < length gaps.
        (case recommendations (gaps ! i) of
           Some resource \<Rightarrow> fst (recommend_learning_tool gaps w) ! i = resource
         | None \<Rightarrow>
             fst (recommend_learning_tool gaps w) ! i = ''Online resources for '' @ gaps ! i
             \<and> str_in (gaps ! i) (fst (recommend_learning_tool gaps w) ! i)))
   \<and> self (snd (recommend_learning_tool gaps w)) = self w"
proof (intro conjI allI impI)
  show "length (fst (recommend_learning_tool gaps w)) = length gaps"
    by (simp add: recommend_fst)
  show "fst (recommend_learning_tool gaps w) = map recommendation_for gaps"
    by (rule recommend_fst)
  show "self (snd (recommend_learning_tool gaps w)) = self w"
    by (rule recommend_self)
next
  fix i
  assume i: "i < length gaps"
  then have n: "fst (recommend_learning_tool gaps w) ! i = recommendation_for (gaps ! i)"
    by (simp add: recommend_fst)
  show "case recommendations (gaps ! i) of
          Some resource \<Rightarrow> fst (recommend_learning_tool gaps w) ! i = resource
        | None \<Rightarrow>
            fst (recommend_learning_tool gaps w) ! i = ''Online resources for '' @ gaps ! i
            \<and> str_in (gaps ! i) (fst (recommend_learning_tool gaps w) ! i)"
  proof (cases "recommendations (gaps ! i)")
    case None
    have "str_in (gaps ! i) (''Online resources for '' @ gaps ! i)"
      by (rule str_in_suffix)
    then show ?thesis
      by (simp only: None option.case n recommendation_for_None [OF None] simp_thms)
  next
    case (Some resource)
    then show ?thesis
      by (simp only: option.case n recommendation_for_Some [OF Some])
  qed
qed

theorem recommend_learning_tool_entries_witness:
  "length (fst (recommend_learning_tool [''Data Analysis'', ''Algorithms''] main_world)) = 2
   \<and> fst (recommend_learning_tool [''Data Analysis'', ''Algorithms''] main_world) ! 0
       = ''DataCamp: Data Analyst with Python''
   \<and> fst (recommend_learning_tool [''Data Analysis'', ''Algorithms''] main_world) ! 1
       = ''Online resources for Algorithms''"
proof -
  have r0: "recommendations ([''Data Analysis'', ''Algorithms''] ! 0)
              = Some ''DataCamp: Data Analyst with Python''"
    by (simp add: recommendations_def)
  have r1: "recommendations ([''Data Analysis'', ''Algorithms''] ! 1) = None"
    by (simp add: recommendations_def)
  let ?r = "fst (recommend_learning_tool [''Data Analysis'', ''Algorithms''] main_world)"
  note t = recommend_learning_tool_entries [of "[''Data Analysis'', ''Algorithms'']" main_world]
  from t have l: "length ?r = 2"
    by simp
  from t have n: "\<And>i. i < 2 \<Longrightarrow>
         (case recommendations ([''Data Analysis'', ''Algorithms''] ! i) of
           Some resource \<Rightarrow> ?r ! i = resource
         | None \<Rightarrow> ?r ! i = ''Online resources for '' @ [''Data Analysis'', ''Algorithms''] ! i
             \<and> str_in ([''Data Analysis'', ''Algorithms''] ! i) (?r ! i))"
    by simp
  have "?r ! 0 = ''DataCamp: Data Analyst with Python''"
    using n [of 0] by (simp only: r0 option.case)
  moreover have "?r ! 1 = ''Online resources for Algorithms''"
    using n [of 1] by (simp only: r1 option.case) simp
  ultimately show ?thesis using l by blast
qed

section \<open>Properties of the orchestrator\<close>

lemma py_print_self: "self (py_print line w) = self w"
  by (simp add: py_print_def)

lemma py_print_stdout: "stdout (py_print line w) = stdout w @ [line]"
  by (simp add: py_print_def)

lemma find_jobs_tool_self: "self (snd (find_jobs_tool L ks w)) = self w"
  by (simp add: find_jobs_tool_snd py_print_self)

lemma find_jobs_tool_fst_self:
  "self w' = self w \<Longrightarrow> fst (find_jobs_tool L ks w') = fst (find_jobs_tool L ks w)"
  by (simp add: find_jobs_tool_fst)

lemma analyze_skills_tool_self: "self (snd (analyze_skills_tool us d w)) = self w"
  by (simp add: analyze_skills_tool_def Let_def py_print_self)

lemma analyze_skills_tool_fst: "fst (analyze_skills_tool us d w) = analyze_with required_skills us"
  by (simp add: analyze_skills_tool_def Let_def)

lemma analyze_job_self: "self (snd (analyze_job us job w)) = self w"
  by (simp add: analyze_job_def Let_def split_beta analyze_skills_tool_self recommend_self)

lemma analyze_job_fst: "fst (analyze_job us job w') = fst (analyze_job us job w)"
  by (simp add: analyze_job_def Let_def split_beta analyze_skills_tool_fst recommend_fst)

lemma analyze_loop_self: "self (snd (analyze_loop us jobs ms w)) = self w"
  by (induction jobs arbitrary: ms w) (simp_all add: split_beta analyze_job_self)

lemma analyze_loop_fst:
  "fst (analyze_loop us jobs ms w) = ms @ map (\<lambda>job. fst (analyze_job us job w0)) jobs"
proof (induction jobs arbitrary: ms w)
  case Nil
  then show ?case by simp
next
  case (Cons job jobs)
  have "fst (analyze_job us job w) = fst (analyze_job us job w0)"
    by (rule analyze_job_fst)
  with Cons show ?case by (simp add: split_beta)
qed

lemma run_agent_self: "self (snd (run_agent L p w)) = self w"
  by (simp add: run_agent_def Let_def split_beta find_jobs_tool_self analyze_loop_self
      py_print_self)

lemma run_agent_fst_self:
  assumes "self w' = self w"
  shows "fst (run_agent L p w') = fst (run_agent L p w)"
proof -
  let ?ks = "case skills p of None \<Rightarrow> [] | Some s \<Rightarrow> s"
  let ?i = "CHR 0x0A # ''--- Agent Workflow Initiated ---''"
  have f: "fst (find_jobs_tool L ?ks (py_print ?i w')) = fst (find_jobs_tool L ?ks (py_print ?i w))"
    by (rule find_jobs_tool_fst_self) (simp add: py_print_self assms)
  have l: "\<And>jobs v v'. fst (analyze_loop ?ks jobs [] v') = fst (analyze_loop ?ks jobs [] v)"
    by (simp add: analyze_loop_fst [where ?w0.0 = w])
  show ?thesis
    unfolding run_agent_def Let_def split_beta f
    by (simp add: l [of _ "snd (find_jobs_tool L ?ks (py_print ?i w'))" "snd (find_jobs_tool L ?ks (py_print ?i w))"])
qed

lemma run_agent_no_jobs:
  assumes "fst (find_jobs_tool L (case skills p of None \<Rightarrow> [] | Some s \<Rightarrow> s) w) = []"
  shows "run_agent L p w =
     (\<lparr>status = ''No jobs found.'',
       report_text = Some ''No suitable job listings were found with your current skills.'',
       matches = None\<rparr>,
      py_print (CHR 0x0A # ''[Tool: Job Search] Searching for jobs with skills: ''
                  @ join '', '' (case skills p of None \<Rightarrow> [] | Some s \<Rightarrow> s))
        (py_print (CHR 0x0A # ''--- Agent Workflow Initiated ---'') w))"
proof -
  let ?ks = "case skills p of None \<Rightarrow> [] | Some s \<Rightarrow> s"
  let ?w1 = "py_print (CHR 0x0A # ''--- Agent Workflow Initiated ---'') w"
  have "fst (find_jobs_tool L ?ks ?w1) = fst (find_jobs_tool L ?ks w)"
    by (rule find_jobs_tool_fst_self) (rule py_print_self)
  with assms have e: "fst (find_jobs_tool L ?ks ?w1) = []"
    by simp
  show ?thesis
    unfolding run_agent_def Let_def split_beta
    by (simp only: e find_jobs_tool_snd simp_thms if_True)
qed

lemma find_jobs_tool_Nil: "fst (find_jobs_tool L [] w) = []"
  by (simp add: find_jobs_tool_fst)

lemma find_cobol: "fst (find_jobs_tool ascii_lower [''COBOL''] main_world) = []"
  by code_simp

lemma run_agent_empty_catalog:
  assumes "mock_jobs (self w) = []"
  shows "fst (run_agent L p w) =
           \<lparr>status = ''No jobs found.'',
            report_text = Some ''No suitable job listings were found with your current skills.'',
            matches = None\<rparr>"
proof -
  have h: "fst (find_jobs_tool L (case skills p of None \<Rightarrow> [] | Some s \<Rightarrow> s) w) = []"
    by (simp add: find_jobs_tool_fst assms)
  show ?thesis
    unfolding run_agent_no_jobs [OF h] fst_conv by (rule refl)
qed

lemma CareerAgent_init_raises:
  "fs path = Unreadable \<Longrightarrow> CareerAgent_init key path fs out = Inl OSError"
  "fs path = Malformed \<Longrightarrow> CareerAgent_init key path fs out = Inl JSONDecodeError"
  by (simp_all add: CareerAgent_init_def load_mock_job_db_def)

lemma CareerAgent_init_malformed_file:
  "CareerAgent_init ''YOUR_GRANITE_API_KEY'' ''mock_job_db.json''
     (one_file ''mock_job_db.json'' Malformed) [] = Inl JSONDecodeError"
  by (simp add: CareerAgent_init_raises one_file_def)

text \<open>The report of the main block: its profile on its catalog.\<close>

lemma main_block_report:
  "fst (run_agent ascii_lower
       \<lparr>skills = Some [''Python'', ''Algorithms'', ''Communication'', ''Data Analysis''],
        goal = Some ''Find a job as a Data Scientist.''\<rparr> main_world)
   = \<lparr>status = ''Success'', report_text = None,
      matches = Some
       [\<lparr>jm_title = ''Data Scientist'', jm_company = ''TechCorp'', jm_match_score = 50,
         jm_skill_gaps = Some [''SQL'', ''Machine Learning'', ''AI''],
         jm_learning_plan = Some [''Udemy: The Complete SQL Bootcamp'',
           ''Coursera: Machine Learning by Andrew Ng'',
           ''IBM SkillsBuild: Getting Started with AI'']\<rparr>,
        \<lparr>jm_title = ''AI Engineer'', jm_company = ''AI Innovators'', jm_match_score = 50,
         jm_skill_gaps = Some [''SQL'', ''Machine Learning'', ''AI''],
         jm_learning_plan = Some [''Udemy: The Complete SQL Bootcamp'',
           ''Coursera: Machine Learning by Andrew Ng'',
           ''IBM SkillsBuild: Getting Started with AI'']\<rparr>,
        \<lparr>jm_title = ''Business Analyst'', jm_company = ''Global Solutions'', jm_match_score = 50,
         jm_skill_gaps = Some [''SQL'', ''Machine Learning'', ''AI''],
         jm_learning_plan = Some [''Udemy: The Complete SQL Bootcamp'',
           ''Coursera: Machine Learning by Andrew Ng'',
           ''IBM SkillsBuild: Getting Started with AI'']\<rparr>]\<rparr>"
  by code_simp

text \<open>
  Claim C9. The agent object, and with it the loaded catalog, is the same after a run of
  the workflow as before it; a second run on the world the first run left gives the same
  report; and in any two worlds with the same agent the workflow gives the same report
  for the same profile: only the printed output grows.
\<close>

theorem run_agent_idempotent:
  "self (snd (run_agent L p w)) = self w
   \<and> fst (run_agent L p (snd (run_agent L p w))) = fst (run_agent L p w)
   \<and> (self w' = self w \<longrightarrow> fst (run_agent L p w') = fst (run_agent L p w))"
proof (intro conjI impI)
  show "self (snd (run_agent L p w)) = self w"
    by (rule run_agent_self)
  then show "fst (run_agent L p (snd (run_agent L p w))) = fst (run_agent L p w)"
    by (rule run_agent_fst_self)
next
  assume "self w' = self w"
  then show "fst (run_agent L p w') = fst (run_agent L p w)"
    by (rule run_agent_fst_self)
qed

theorem run_agent_idempotent_witness:
  "self (snd (run_agent ascii_lower
       \<lparr>skills = Some [''Python'', ''Algorithms'', ''Communication'', ''Data Analysis''],
        goal = Some ''Find a job as a Data Scientist.''\<rparr> main_world)) = self main_world
   \<and> self (py_print ''--- FINAL REPORT FOR USER ---'' main_world) = self main_world
   \<and> fst (run_agent ascii_lower
       \<lparr>skills = Some [''Python'', ''Algorithms'', ''Communication'', ''Data Analysis''],
        goal = Some ''Find a job as a Data Scientist.''\<rparr>
       (py_print ''--- FINAL REPORT FOR USER ---'' main_world))
     = fst (run_agent ascii_lower
       \<lparr>skills = Some [''Python'', ''Algorithms'', ''Communication'', ''Data Analysis''],
        goal = Some ''Find a job as a Data Scientist.''\<rparr> main_world)"
proof -
  have s: "self (py_print ''--- FINAL REPORT FOR USER ---'' main_world) = self main_world"
    by (rule py_print_self)
  from run_agent_idempotent
         [of ascii_lower
             "\<lparr>skills = Some [''Python'', ''Algorithms'', ''Communication'', ''Data Analysis''],
               goal = Some ''Find a job as a Data Scientist.''\<rparr>" main_world
             "py_print ''--- FINAL REPORT FOR USER ---'' main_world"]
  show ?thesis using s by blast
qed

text \<open>
  Claim C3, as the code has it. Whenever the job finder returns no job for the profile's
  skills, the workflow returns the report with status \<^verbatim>\<open>No jobs found.\<close> and an
  explanatory text; the report has no key \<^verbatim>\<open>matches\<close> (so no match entry, but not an
  empty sequence either), and only the job finder has run.
\<close>

theorem run_agent_no_jobs_report:
  assumes "fst (find_jobs_tool L (case skills p of None \<Rightarrow> [] | Some s \<Rightarrow> s) w) = []"
  shows "fst (run_agent L p w) =
           \<lparr>status = ''No jobs found.'',
            report_text = Some ''No suitable job listings were found with your current skills.'',
            matches = None\<rparr>
         \<and> stdout (snd (run_agent L p w)) =
             stdout w @ [CHR 0x0A # ''--- Agent Workflow Initiated ---'',
                         CHR 0x0A # ''[Tool: Job Search] Searching for jobs with skills: ''
                           @ join '', '' (case skills p of None \<Rightarrow> [] | Some s \<Rightarrow> s)]"
  unfolding run_agent_no_jobs [OF assms] fst_conv snd_conv py_print_stdout
  by simp

theorem run_agent_no_jobs_report_witness:
  "fst (find_jobs_tool ascii_lower [''COBOL''] main_world) = []
   \<and> fst (run_agent ascii_lower \<lparr>skills = Some [''COBOL''], goal = None\<rparr> main_world) =
           \<lparr>status = ''No jobs found.'',
            report_text = Some ''No suitable job listings were found with your current skills.'',
            matches = None\<rparr>
   \<and> stdout (snd (run_agent ascii_lower \<lparr>skills = Some [''COBOL''], goal = None\<rparr> main_world)) =
             stdout main_world @ [CHR 0x0A # ''--- Agent Workflow Initiated ---'',
                         CHR 0x0A # ''[Tool: Job Search] Searching for jobs with skills: ''
                           @ join '', '' [''COBOL'']]"
proof -
  have c: "(case skills \<lparr>skills = Some [''COBOL''], goal = None\<rparr> of None \<Rightarrow> [] | Some s \<Rightarrow> s)
             = [''COBOL'']"
    by simp
  have h: "fst (find_jobs_tool ascii_lower
             (case skills \<lparr>skills = Some [''COBOL''], goal = None\<rparr> of None \<Rightarrow> [] | Some s \<Rightarrow> s)
             main_world) = []"
    unfolding c by (rule find_cobol)
  from run_agent_no_jobs_report [OF h] find_cobol show ?thesis
    unfolding c by blast
qed

text \<open>
  The claim as the specification states it asks for an empty sequence of matches. For the
  skill \<^verbatim>\<open>COBOL\<close>, which no posting of the main block's catalog mentions, the
  report has no matches at all: the key is absent.
\<close>

theorem no_jobs_report_has_no_matches:
  "fst (find_jobs_tool ascii_lower [''COBOL''] main_world) = []
   \<and> matches (fst (run_agent ascii_lower \<lparr>skills = Some [''COBOL''], goal = None\<rparr> main_world)) = None
   \<and> matches (fst (run_agent ascii_lower \<lparr>skills = Some [''COBOL''], goal = None\<rparr> main_world)) \<noteq> Some []"
proof -
  have c: "(case skills \<lparr>skills = Some [''COBOL''], goal = None\<rparr> of None \<Rightarrow> [] | Some s \<Rightarrow> s)
             = [''COBOL'']"
    by simp
  have h: "fst (find_jobs_tool ascii_lower
             (case skills \<lparr>skills = Some [''COBOL''], goal = None\<rparr> of None \<Rightarrow> [] | Some s \<Rightarrow> s)
             main_world) = []"
    unfolding c by (rule find_cobol)
  have "matches (fst (run_agent ascii_lower \<lparr>skills = Some [''COBOL''], goal = None\<rparr> main_world)) = None"
    unfolding run_agent_no_jobs [OF h] by simp
  with find_cobol show ?thesis by simp
qed

text \<open>
  Claim C2, as the code has it. For a profile whose skill list is empty or absent,
  \<^verbatim>\<open>run_agent\<close> does not validate: it invokes the job finder, which prints its line and
  finds nothing, and returns the report with status \<^verbatim>\<open>No jobs found.\<close> and its
  user-facing text. The report with status \<^verbatim>\<open>Error\<close> is the answer of the
  \<^verbatim>\<open>find_jobs\<close> endpoint, with HTTP status 400, given before any call of the agent.
\<close>

theorem run_agent_empty_skills:
  assumes "(case skills p of None \<Rightarrow> [] | Some s \<Rightarrow> s) = []"
  shows "fst (run_agent L p w) =
           \<lparr>status = ''No jobs found.'',
            report_text = Some ''No suitable job listings were found with your current skills.'',
            matches = None\<rparr>
         \<and> stdout (snd (run_agent L p w)) =
             stdout w @ [CHR 0x0A # ''--- Agent Workflow Initiated ---'',
                         CHR 0x0A # ''[Tool: Job Search] Searching for jobs with skills: '']
         \<and> find_jobs L (skills p) w =
             ((\<lparr>status = ''Error'', report_text = Some ''Please provide a list of skills.'',
                matches = None\<rparr>, 400), w)"
proof -
  have e: "fst (find_jobs_tool L (case skills p of None \<Rightarrow> [] | Some s \<Rightarrow> s) w) = []"
    unfolding assms by (rule find_jobs_tool_Nil)
  have j: "join '', '' (case skills p of None \<Rightarrow> [] | Some s \<Rightarrow> s) = []"
    unfolding assms by simp
  have "find_jobs L (skills p) w =
             ((\<lparr>status = ''Error'', report_text = Some ''Please provide a list of skills.'',
                matches = None\<rparr>, 400), w)"
    unfolding find_jobs_def Let_def by (simp only: assms simp_thms if_True)
  moreover have "stdout (snd (run_agent L p w)) =
             stdout w @ [CHR 0x0A # ''--- Agent Workflow Initiated ---'',
                         CHR 0x0A # ''[Tool: Job Search] Searching for jobs with skills: '']"
    unfolding run_agent_no_jobs [OF e] snd_conv py_print_stdout j by simp
  moreover have "fst (run_agent L p w) =
           \<lparr>status = ''No jobs found.'',
            report_text = Some ''No suitable job listings were found with your current skills.'',
            matches = None\<rparr>"
    unfolding run_agent_no_jobs [OF e] fst_conv by (rule refl)
  ultimately show ?thesis by blast
qed

theorem run_agent_empty_skills_witness:
  "(case skills \<lparr>skills = Some [], goal = Some ''general career path''\<rparr> of
      None \<Rightarrow> [] | Some s \<Rightarrow> s) = []
   \<and> status (fst (run_agent ascii_lower \<lparr>skills = Some [], goal = Some ''general career path''\<rparr> main_world))
       = ''No jobs found.''
   \<and> find_jobs ascii_lower (Some []) main_world =
             ((\<lparr>status = ''Error'', report_text = Some ''Please provide a list of skills.'',
                matches = None\<rparr>, 400), main_world)"
proof -
  have h: "(case skills \<lparr>skills = Some [], goal = Some ''general career path''\<rparr> of
      None \<Rightarrow> [] | Some s \<Rightarrow> s) = []"
    by simp
  from run_agent_empty_skills [OF h, where L = ascii_lower and w = main_world] h show ?thesis
    by simp
qed

text \<open>
  The claim as the specification states it asks for the status \<^verbatim>\<open>Error\<close> and for no
  call of the job finder. On the empty skill list the workflow returns the status
  \<^verbatim>\<open>No jobs found.\<close>, and the job finder's line is in the output.
\<close>

theorem empty_skills_reach_job_finder:
  "status (fst (run_agent ascii_lower \<lparr>skills = Some [], goal = None\<rparr> main_world)) = ''No jobs found.''
   \<and> status (fst (run_agent ascii_lower \<lparr>skills = Some [], goal = None\<rparr> main_world)) \<noteq> ''Error''
   \<and> stdout (snd (run_agent ascii_lower \<lparr>skills = Some [], goal = None\<rparr> main_world)) =
       [''AI Career Agent Initialized.'',
        CHR 0x0A # ''--- Agent Workflow Initiated ---'',
        CHR 0x0A # ''[Tool: Job Search] Searching for jobs with skills: '']"
proof -
  have h: "fst (find_jobs_tool ascii_lower
             (case skills \<lparr>skills = Some [], goal = None\<rparr> of None \<Rightarrow> [] | Some s \<Rightarrow> s)
             main_world) = []"
    by (simp add: find_jobs_tool_Nil)
  show ?thesis
    unfolding run_agent_no_jobs [OF h]
    by (simp add: py_print_def main_world_def)
qed

section \<open>Properties of the catalog loader\<close>

text \<open>
  Claim C8, as the code has it. When no file exists at the catalog's path, the loader
  does not fail: it returns the empty catalog and prints a warning. The agent is then
  built with the empty catalog, and its workflow returns the report with status
  \<^verbatim>\<open>No jobs found.\<close> for every profile.
\<close>

theorem load_missing_source:
  assumes "fs path = NotFound"
  shows "load_mock_job_db path fs out =
           Inr ([], out @ [''Warning: Mock job database not found at '' @ path
                             @ ''. No jobs loaded.''])
         \<and> (\<exists>w. CareerAgent_init key path fs out = Inr w
                \<and> mock_jobs (self w) = []
                \<and> fst (run_agent L p w) =
                    \<lparr>status = ''No jobs found.'',
                     report_text =
                       Some ''No suitable job listings were found with your current skills.'',
                     matches = None\<rparr>)"
proof
  show l: "load_mock_job_db path fs out =
           Inr ([], out @ [''Warning: Mock job database not found at '' @ path
                             @ ''. No jobs loaded.''])"
    unfolding load_mock_job_db_def assms by simp
  let ?w = "py_print ''AI Career Agent Initialized.''
              \<lparr>self = \<lparr>granite_api_key = key, mock_db_path = path, mock_jobs = []\<rparr>,
               stdout = out @ [''Warning: Mock job database not found at '' @ path
                                 @ ''. No jobs loaded.'']\<rparr>"
  have i: "CareerAgent_init key path fs out = Inr ?w"
    unfolding CareerAgent_init_def l by simp
  have e: "mock_jobs (self ?w) = []"
    by (simp add: py_print_self)
  from i e run_agent_empty_catalog [OF e, where L = L and p = p]
  show "\<exists>w. CareerAgent_init key path fs out = Inr w
                \<and> mock_jobs (self w) = []
                \<and> fst (run_agent L p w) =
                    \<lparr>status = ''No jobs found.'',
                     report_text =
                       Some ''No suitable job listings were found with your current skills.'',
                     matches = None\<rparr>"
    by blast
qed

theorem load_missing_source_witness:
  "no_files ''mock_job_db.json'' = NotFound
   \<and> load_mock_job_db ''mock_job_db.json'' no_files [] =
       Inr ([], [] @ [''Warning: Mock job database not found at '' @ ''mock_job_db.json''
                             @ ''. No jobs loaded.''])"
proof -
  have h: "no_files ''mock_job_db.json'' = NotFound"
    by (simp add: no_files_def)
  from load_missing_source [where fs = no_files and path = "''mock_job_db.json''" and out = "[]", OF h] h
  show ?thesis
    by blast
qed

text \<open>
  The claim as the specification states it asks the loader to fail when the source cannot
  be read. At a path where no file exists the loader returns normally, with the empty
  catalog.
\<close>

theorem missing_source_loads_empty_catalog:
  "load_mock_job_db ''mock_job_db.json'' no_files [] =
     Inr ([], [''Warning: Mock job database not found at mock_job_db.json. No jobs loaded.''])
   \<and> \<not> isl (load_mock_job_db ''mock_job_db.json'' no_files [])"
  by (simp add: load_mock_job_db_def no_files_def)

end
